theory Spec2Isabelle
  imports Complex_Main "HOL-Library.Signed_Division"
begin

section \<open>Data model of the daily task CLI (main.go)\<close>

text \<open>
  The Go struct \<^verbatim>\<open>Task\<close> with its five fields. A field of Go type \<^verbatim>\<open>int\<close> or
  \<^verbatim>\<open>int64\<close> holds an integer of the signed 64-bit range (\<^verbatim>\<open>int\<close> as on a 64-bit
  platform). The clock arithmetic of \<^verbatim>\<open>updateStatus\<close> is written with its wrap-around
  (\<open>wrap64\<close>); the sums of minute counts are taken on the integers, the counts of a
  day staying far inside that range. Integer division is Go's, which truncates towards
  zero (\<open>sdiv\<close>), not HOL's \<open>div\<close>.
\<close>

record Task =
  Title :: string
  Estimated :: int
  Actual :: int
  Status :: string
  StartedAt :: int

text \<open>\<^verbatim>\<open>type TaskData map[string][]Task\<close>: the tasks of each day, keyed by date.\<close>

type_synonym TaskData = "string \<Rightarrow> Task list option"

definition maxDailyMinutes :: int where
  "maxDailyMinutes = 480"

text \<open>
  \<^verbatim>\<open>data[today]\<close>: indexing a Go map with a key it does not hold gives the zero value,
  here the nil slice.
\<close>

definition dayTasks :: "TaskData \<Rightarrow> string \<Rightarrow> Task list" where
  "dayTasks data day = (case data day of None \<Rightarrow> [] | Some tasks \<Rightarrow> tasks)"

text \<open>
  A Go \<^verbatim>\<open>error\<close> value is its message; \<open>Panic\<close> is a run-time panic of the Go
  program, which ends the process with the file untouched. What a command does is its
  returned error (\<open>None\<close> for \<^verbatim>\<open>nil\<close>), the lines it prints, and the content of the
  task file when it returns: the loaded data where the command never reaches
  \<^verbatim>\<open>saveTasks\<close>. Reading and writing the file are taken to succeed.
\<close>

datatype error = Error string | Panic string

record outcome =
  returned :: "error option"
  printed :: "string list"
  store :: TaskData

section \<open>updateStatus\<close>

text \<open>
  The signed 64-bit range, and the value a 64-bit result wraps to in two's complement.
\<close>

definition inInt64 :: "int \<Rightarrow> bool" where
  "inInt64 x = (- (2 ^ 63) \<le> x \<and> x < 2 ^ 63)"

definition wrap64 :: "int \<Rightarrow> int" where
  "wrap64 x = (x + 2 ^ 63) mod 2 ^ 64 - 2 ^ 63"

text \<open>
  The \<^verbatim>\<open>switch status\<close> of \<^verbatim>\<open>updateStatus\<close>, on the task \<^verbatim>\<open>t\<close>; \<open>now\<close> is
  \<^verbatim>\<open>time.Now().Unix()\<close>. The difference \<^verbatim>\<open>time.Now().Unix()-t.StartedAt\<close> is an
  \<^verbatim>\<open>int64\<close> subtraction and \<^verbatim>\<open>t.Actual += elapsed\<close> an \<^verbatim>\<open>int\<close> addition: both wrap.
  The division by 60 cannot overflow.
\<close>

definition updateStatus_switch :: "int \<Rightarrow> string \<Rightarrow> Task \<Rightarrow> Task" where
  "updateStatus_switch now status t =
     (if status = ''started'' then
        t\<lparr>StartedAt := now, Status := ''started''\<rparr>
      else if status = ''done'' \<or> status = ''cancelled'' \<or> status = ''pending'' then
        (if StartedAt t \<noteq> 0
         then t\<lparr>Actual := wrap64 (Actual t + wrap64 (now - StartedAt t) sdiv 60),
                StartedAt := 0\<rparr>
         else t)\<lparr>Status := status\<rparr>
      else
        t\<lparr>Status := status\<rparr>)"

definition updateStatus :: "TaskData \<Rightarrow> string \<Rightarrow> int \<Rightarrow> int \<Rightarrow> string \<Rightarrow> outcome" where
  "updateStatus data today now index status =
     (let tasks = dayTasks data today in
      if index < 0 \<or> index \<ge> int (length tasks) then
        \<lparr>returned = Some (Error ''invalid task index''), printed = [], store = data\<rparr>
      else
        \<lparr>returned = None, printed = [],
         store = data(today \<mapsto> tasks[nat index := updateStatus_switch now status (tasks ! nat index)])\<rparr>)"


text \<open>
  The commands leave a prompt the same way everywhere:
  \<^verbatim>\<open>if err.Error() == "interrupt" || err.Error() == "q" { return nil }; return err\<close>,
  with nothing saved.
\<close>

fun isQuit :: "error \<Rightarrow> bool" where
  "isQuit (Error msg) = (msg = ''interrupt'' \<or> msg = ''q'')"
| "isQuit (Panic msg) = False"

definition leavePrompt :: "TaskData \<Rightarrow> error \<Rightarrow> outcome" where
  "leavePrompt data e =
     \<lparr>returned = (if isQuit e then None else Some e), printed = [], store = data\<rparr>"

text \<open>
  \<^verbatim>\<open>promptWithCursor\<close>: \<open>run\<close> is what \<^verbatim>\<open>prompt.Run()\<close> gave back, the entered text or
  an error. The label only decorates the prompt and is left out.
\<close>

definition promptWithCursor :: "string \<Rightarrow> error + string \<Rightarrow> error + string" where
  "promptWithCursor defaultVal run =
     (case run of
        Inr result \<Rightarrow> if result = ''q'' \<and> defaultVal \<noteq> ''q'' then Inl (Error ''q'') else Inr result
      | Inl e \<Rightarrow> Inl e)"

section \<open>addTaskInteractive\<close>

text \<open>
  The \<^verbatim>\<open>Validate\<close> closure of the estimate prompt. Its argument is what
  \<^verbatim>\<open>strconv.Atoi(input)\<close> returns for the entered text: \<open>None\<close> when Atoi reports an error,
  else the number.
\<close>

definition estValidate :: "int option \<Rightarrow> error option" where
  "estValidate parsed =
     (case parsed of
        None \<Rightarrow> Some (Error ''please enter a valid number of minutes'')
      | Some val \<Rightarrow>
          if val \<le> 0 then Some (Error ''please enter a valid number of minutes'') else None)"

text \<open>The loop \<^verbatim>\<open>for _, t := range data[today] { total += t.Estimated }\<close>, with
  \<open>tot\<close> for the variable \<^verbatim>\<open>total\<close>.\<close>

fun sumEstimated :: "Task list \<Rightarrow> int \<Rightarrow> int" where
  "sumEstimated [] tot = tot"
| "sumEstimated (t # ts) tot = sumEstimated ts (tot + Estimated t)"

text \<open>
  \<open>titleRun\<close> is the result of the title prompt's \<^verbatim>\<open>Run()\<close>. \<open>estRun\<close> is one entry at
  the estimate prompt: an error that ended the prompt, or the Atoi reading of the text
  entered. The prompt library hands an entry back to the program only when
  \<^verbatim>\<open>Validate\<close> accepts it; on a rejected entry it shows \<^verbatim>\<open>Validate\<close>'s error and keeps
  waiting, so the command has not returned and nothing was written: \<open>None\<close>. The key
  \<open>today\<close> is today's or tomorrow's date, as the flag \<^verbatim>\<open>tommorow\<close> chooses.
\<close>

definition addTaskInteractive ::
  "TaskData \<Rightarrow> string \<Rightarrow> error + string \<Rightarrow> error + int option \<Rightarrow> outcome option" where
  "addTaskInteractive data today titleRun estRun =
     (case promptWithCursor [] titleRun of
        Inl e \<Rightarrow> Some (leavePrompt data e)
      | Inr title \<Rightarrow>
          (case estRun of
             Inl e \<Rightarrow> Some (leavePrompt data e)
           | Inr parsed \<Rightarrow>
               (case estValidate parsed of
                  Some rejected \<Rightarrow> None
                | None \<Rightarrow>
                    (let estimated = (case parsed of Some val \<Rightarrow> val | None \<Rightarrow> 0);
                         tot = sumEstimated (dayTasks data today) 0;
                         task = \<lparr>Title = title, Estimated = estimated, Actual = 0,
                                 Status = ''pending'', StartedAt = 0\<rparr>
                     in Some \<lparr>returned = None,
                              printed = (if tot + estimated > maxDailyMinutes
                                         then [''total estimated time exceeds 8 hours''] else []),
                              store = data(today \<mapsto> dayTasks data today @ [task])\<rparr>))))"

section \<open>remainingMinutesToday\<close>

text \<open>
  A \<^verbatim>\<open>time.Time\<close> is modelled by the nanoseconds since midnight of its own local date
  (the local clock is taken not to be shifted during that day). \<open>dateAt h m\<close> is
  \<^verbatim>\<open>time.Date(now.Year(), now.Month(), now.Day(), h, m, 0, 0, now.Location())\<close>.
\<close>

definition nsPerMinute :: int where
  "nsPerMinute = 60 * 1000000000"

definition dateAt :: "int \<Rightarrow> int \<Rightarrow> int" where
  "dateAt h m = (h * 60 + m) * nsPerMinute"

text \<open>
  \<^verbatim>\<open>int(d.Minutes())\<close> for a duration of \<open>d\<close> nanoseconds. \<^verbatim>\<open>Minutes()\<close> returns the
  float \<^verbatim>\<open>float64(d / Minute) + float64(d % Minute) / 6e10\<close>; for the durations of a single
  day this sum is below the next whole number, and the conversion to \<^verbatim>\<open>int\<close> drops the
  fraction: the result is the quotient truncated towards zero.
\<close>

definition minutesInt :: "int \<Rightarrow> int" where
  "minutesInt d = d sdiv nsPerMinute"

definition remainingMinutesToday :: "int \<Rightarrow> int" where
  "remainingMinutesToday now =
     (let workStart = dateAt 8 30;
          lunchStart = dateAt 12 30;
          lunchEnd = dateAt 13 30;
          workEnd = dateAt 17 30
      in if now < workStart then 480
         else if now > workEnd then 0
         else if now < lunchStart then 0 + minutesInt (lunchStart - now) + 240
         else if now < lunchEnd then 0 + 240
         else if now < workEnd then 0 + minutesInt (workEnd - now)
         else 0)"

section \<open>The figures of listTasksInteractive\<close>







text \<open>
  One pass of the edit loop of \<^verbatim>\<open>listTasksInteractive\<close> in which all five prompts return
  without error (lines 494 and 519 to 541): \<open>index\<close> is the task selected, \<open>title\<close> and
  \<open>status\<close> the texts entered, \<open>estimated\<close> and \<open>actual\<close> the Atoi values of the two
  numbers entered. The result is the data saved at the end of the pass.
\<close>

definition listTasksEdit ::
  "TaskData \<Rightarrow> string \<Rightarrow> int \<Rightarrow> string \<Rightarrow> int \<Rightarrow> int \<Rightarrow> string \<Rightarrow> error + TaskData" where
  "listTasksEdit data today index title estimated actual status =
     (let tasks = dayTasks data today in
      if index < 0 \<or> index \<ge> int (length tasks) then Inl (Panic ''index out of range'')
      else
        Inr (data(today \<mapsto> tasks[nat index :=
               (tasks ! nat index)\<lparr>Title := title, Estimated := estimated,
                                    Actual := actual, Status := status\<rparr>])))"

section \<open>startNextPendingTask, finishCurrentTask, stopCurrentTask\<close>

text \<open>The first loop of \<^verbatim>\<open>startNextPendingTask\<close>: is any task already started?\<close>

fun alreadyStarted :: "Task list \<Rightarrow> bool" where
  "alreadyStarted [] = False"
| "alreadyStarted (t # ts) = (if Status t = ''started'' then True else alreadyStarted ts)"

definition quoted :: "string \<Rightarrow> string" where
  "quoted s = [CHR 0x27] @ s @ [CHR 0x27]"

text \<open>
  The second loop, from index \<open>i\<close> on. \<open>run i\<close> is the result of the Start/Skip prompt
  shown for the task at index \<open>i\<close>; \<open>now\<close> is \<^verbatim>\<open>time.Now().Unix()\<close>.
\<close>

fun startLoop ::
  "TaskData \<Rightarrow> string \<Rightarrow> int \<Rightarrow> (nat \<Rightarrow> error + string) \<Rightarrow> nat \<Rightarrow> Task list \<Rightarrow> outcome" where
  "startLoop data today now run i [] =
     \<lparr>returned = None, printed = [''No pending tasks to start.''], store = data\<rparr>"
| "startLoop data today now run i (t # ts) =
     (if Status t = ''pending'' then
        (case run i of
           Inl e \<Rightarrow> leavePrompt data e
         | Inr choice \<Rightarrow>
             if choice = ''Start'' then
               (let r = updateStatus data today now (int i) ''started''
                in r\<lparr>printed := (''Starting '' @ quoted (Title t) @ ''...'') # printed r\<rparr>)
             else startLoop data today now run (Suc i) ts)
      else startLoop data today now run (Suc i) ts)"

definition startNextPendingTask ::
  "TaskData \<Rightarrow> string \<Rightarrow> int \<Rightarrow> (nat \<Rightarrow> error + string) \<Rightarrow> outcome" where
  "startNextPendingTask data today now run =
     (let tasks = dayTasks data today in
      if alreadyStarted tasks then
        \<lparr>returned = None,
         printed = [''A task is already started. Please finish it before starting another one.''],
         store = data\<rparr>
      else startLoop data today now run 0 tasks)"

fun finishLoop :: "TaskData \<Rightarrow> string \<Rightarrow> int \<Rightarrow> nat \<Rightarrow> Task list \<Rightarrow> outcome" where
  "finishLoop data today now i [] =
     \<lparr>returned = None, printed = [''No task is currently started.''], store = data\<rparr>"
| "finishLoop data today now i (t # ts) =
     (if Status t = ''started'' then updateStatus data today now (int i) ''done''
      else finishLoop data today now (Suc i) ts)"

definition finishCurrentTask :: "TaskData \<Rightarrow> string \<Rightarrow> int \<Rightarrow> outcome" where
  "finishCurrentTask data today now = finishLoop data today now 0 (dayTasks data today)"

fun stopLoop :: "TaskData \<Rightarrow> string \<Rightarrow> int \<Rightarrow> nat \<Rightarrow> Task list \<Rightarrow> outcome" where
  "stopLoop data today now i [] =
     \<lparr>returned = None, printed = [''No task is currently started.''], store = data\<rparr>"
| "stopLoop data today now i (t # ts) =
     (if Status t = ''started'' then
        (let r = updateStatus data today now (int i) ''pending''
         in r\<lparr>printed := (''Stopping task '' @ quoted (Title t) @ ''...'') # printed r\<rparr>)
      else stopLoop data today now (Suc i) ts)"

definition stopCurrentTask :: "TaskData \<Rightarrow> string \<Rightarrow> int \<Rightarrow> outcome" where
  "stopCurrentTask data today now = stopLoop data today now 0 (dayTasks data today)"

section \<open>deleteTaskInteractive\<close>

text \<open>
  \<open>run\<close> is the result of the selection prompt: an error, or the index chosen. The slice
  expression \<^verbatim>\<open>append(tasks[:index], tasks[index+1:]...)\<close> panics unless
  \<open>0 \<le> index < len(tasks)\<close>.
\<close>

definition deleteTaskInteractive :: "TaskData \<Rightarrow> string \<Rightarrow> error + int \<Rightarrow> outcome" where
  "deleteTaskInteractive data today run =
     (let tasks = dayTasks data today in
      if length tasks = 0 then
        \<lparr>returned = None, printed = [''No tasks to delete.''], store = data\<rparr>
      else
        (case run of
           Inl e \<Rightarrow> leavePrompt data e
         | Inr index \<Rightarrow>
             if index < 0 \<or> index \<ge> int (length tasks) then
               \<lparr>returned = Some (Panic ''slice bounds out of range''), printed = [], store = data\<rparr>
             else
               \<lparr>returned = None, printed = [],
                store = data(today \<mapsto> take (nat index) tasks @ drop (nat index + 1) tasks)\<rparr>))"

section \<open>The timer invariant\<close>

text \<open>A task's timer is set exactly when the task is started.\<close>

definition taskInv :: "Task \<Rightarrow> bool" where
  "taskInv t = ((StartedAt t \<noteq> 0) = (Status t = ''started''))"

definition dayInv :: "TaskData \<Rightarrow> string \<Rightarrow> bool" where
  "dayInv data day = list_all taskInv (dayTasks data day)"


section \<open>Sample days\<close>

text \<open>A day whose only task is running, with five minutes already booked.\<close>

definition runningTask :: Task where
  "runningTask = \<lparr>Title = ''write report'', Estimated = 60, Actual = 5,
                   Status = ''started'', StartedAt = 1700000030\<rparr>"

definition runningDay :: TaskData where
  "runningDay = [''2025-01-01'' \<mapsto> [runningTask]]"


text \<open>A file with no task at all.\<close>

definition noTasks :: TaskData where
  "noTasks = Map.empty"

text \<open>A day planned up to 470 of its 480 minutes.\<close>

definition fullDay :: TaskData where
  "fullDay = [''2025-01-01'' \<mapsto>
     [\<lparr>Title = ''design'', Estimated = 300, Actual = 0, Status = ''pending'', StartedAt = 0\<rparr>,
      \<lparr>Title = ''build'', Estimated = 170, Actual = 0, Status = ''pending'', StartedAt = 0\<rparr>]]"

text \<open>A day with a running task between two pending ones.\<close>

definition busyDay :: TaskData where
  "busyDay = [''2025-01-01'' \<mapsto>
     [\<lparr>Title = ''design'', Estimated = 120, Actual = 0, Status = ''pending'', StartedAt = 0\<rparr>,
      \<lparr>Title = ''build'', Estimated = 90, Actual = 10, Status = ''started'', StartedAt = 1700000030\<rparr>,
      \<lparr>Title = ''test'', Estimated = 45, Actual = 0, Status = ''pending'', StartedAt = 0\<rparr>]]"

text \<open>A user who answers Start at every Start/Skip prompt.\<close>

definition alwaysStart :: "nat \<Rightarrow> error + string" where
  "alwaysStart i = Inr ''Start''"

section \<open>Basic facts\<close>

lemma dayTasks_upd:
  "dayTasks (data(day \<mapsto> ts)) day' = (if day' = day then ts else dayTasks data day')"
  by (simp add: dayTasks_def)

lemma updateStatus_in_range:
  assumes "0 \<le> index" and "index < int (length (dayTasks data today))"
  shows "updateStatus data today now index status =
     \<lparr>returned = None, printed = [],
      store = data(today \<mapsto> (dayTasks data today)[nat index :=
                updateStatus_switch now status (dayTasks data today ! nat index)])\<rparr>"
  using assms by (simp add: updateStatus_def Let_def)

lemma updateStatus_out_of_range:
  assumes "index < 0 \<or> int (length (dayTasks data today)) \<le> index"
  shows "updateStatus data today now index status =
     \<lparr>returned = Some (Error ''invalid task index''), printed = [], store = data\<rparr>"
  using assms by (auto simp add: updateStatus_def Let_def)

lemma sdiv_nonneg_eq_div: "0 \<le> (k::int) \<Longrightarrow> 0 < l \<Longrightarrow> k sdiv l = k div l"
  by (simp add: signed_divide_int_def sgn_if)

lemma wrap64_id: "inInt64 x \<Longrightarrow> wrap64 x = x"
  by (simp add: inInt64_def wrap64_def)

section \<open>Settling elapsed time\<close>

text \<open>
  Claim C1. For a task whose timer is set (\<open>StartedAt \<noteq> 0\<close>), \<^verbatim>\<open>updateStatus\<close> with
  done, cancelled or pending first adds the elapsed minutes to \<open>Actual\<close>, then clears the
  timer and sets the status, touching nothing else. When the clock is not before the
  start of the span and neither the difference nor the new total leaves the 64-bit range,
  the minutes added are the floor of \<open>(now - StartedAt) / 60\<close>. Starting a task and
  marking it done at the same instant leaves \<open>Actual\<close> as it was and the timer at 0.
\<close>

theorem updateStatus_settles:
  assumes "0 \<le> index" and "index < int (length (dayTasks data today))"
  shows "(StartedAt (dayTasks data today ! nat index) \<noteq> 0
          \<and> (status = ''done'' \<or> status = ''cancelled'' \<or> status = ''pending'') \<longrightarrow>
            updateStatus data today now index status =
              \<lparr>returned = None, printed = [],
               store = data(today \<mapsto> (dayTasks data today)[nat index :=
                 (dayTasks data today ! nat index)
                   \<lparr>Actual := wrap64 (Actual (dayTasks data today ! nat index)
                        + wrap64 (now - StartedAt (dayTasks data today ! nat index)) sdiv 60),
                    StartedAt := 0, Status := status\<rparr>])\<rparr>)
         \<and> (StartedAt (dayTasks data today ! nat index) \<noteq> 0
            \<and> StartedAt (dayTasks data today ! nat index) \<le> now
            \<and> inInt64 (now - StartedAt (dayTasks data today ! nat index))
            \<and> inInt64 (Actual (dayTasks data today ! nat index)
                        + (now - StartedAt (dayTasks data today ! nat index)) div 60)
            \<and> (status = ''done'' \<or> status = ''cancelled'' \<or> status = ''pending'') \<longrightarrow>
              updateStatus data today now index status =
                \<lparr>returned = None, printed = [],
                 store = data(today \<mapsto> (dayTasks data today)[nat index :=
                   (dayTasks data today ! nat index)
                     \<lparr>Actual := Actual (dayTasks data today ! nat index)
                          + (now - StartedAt (dayTasks data today ! nat index)) div 60,
                      StartedAt := 0, Status := status\<rparr>])\<rparr>)
         \<and> (inInt64 (Actual (dayTasks data today ! nat index)) \<longrightarrow>
              Actual (dayTasks (store (updateStatus
                 (store (updateStatus data today now index ''started'')) today now index ''done''))
                 today ! nat index)
               = Actual (dayTasks data today ! nat index)
            \<and> StartedAt (dayTasks (store (updateStatus
                 (store (updateStatus data today now index ''started'')) today now index ''done''))
                 today ! nat index) = 0
            \<and> Status (dayTasks (store (updateStatus
                 (store (updateStatus data today now index ''started'')) today now index ''done''))
                 today ! nat index) = ''done'')"
proof -
  let ?tasks = "dayTasks data today"
  let ?t = "?tasks ! nat index"
  have i: "nat index < length ?tasks" using assms(1,2) by simp
  have first: "updateStatus data today now index status =
           \<lparr>returned = None, printed = [],
            store = data(today \<mapsto> ?tasks[nat index :=
              ?t\<lparr>Actual := wrap64 (Actual ?t + wrap64 (now - StartedAt ?t) sdiv 60),
                 StartedAt := 0, Status := status\<rparr>])\<rparr>"
    if "StartedAt ?t \<noteq> 0" and "status = ''done'' \<or> status = ''cancelled'' \<or> status = ''pending''"
  proof -
    have "updateStatus_switch now status ?t =
        ?t\<lparr>Actual := wrap64 (Actual ?t + wrap64 (now - StartedAt ?t) sdiv 60),
           StartedAt := 0, Status := status\<rparr>"
      using that by (auto simp add: updateStatus_switch_def)
    then show ?thesis using updateStatus_in_range [OF assms(1,2)] by simp
  qed
  have second: "updateStatus data today now index status =
           \<lparr>returned = None, printed = [],
            store = data(today \<mapsto> ?tasks[nat index :=
              ?t\<lparr>Actual := Actual ?t + (now - StartedAt ?t) div 60,
                 StartedAt := 0, Status := status\<rparr>])\<rparr>"
    if "StartedAt ?t \<noteq> 0" and "StartedAt ?t \<le> now"
      and "inInt64 (now - StartedAt ?t)"
      and "inInt64 (Actual ?t + (now - StartedAt ?t) div 60)"
      and "status = ''done'' \<or> status = ''cancelled'' \<or> status = ''pending''"
  proof -
    have diff: "wrap64 (now - StartedAt ?t) = now - StartedAt ?t"
      using that(3) by (rule wrap64_id)
    have quot: "(now - StartedAt ?t) sdiv 60 = (now - StartedAt ?t) div 60"
      using that(2) by (simp add: sdiv_nonneg_eq_div)
    have "wrap64 (Actual ?t + wrap64 (now - StartedAt ?t) sdiv 60)
        = Actual ?t + (now - StartedAt ?t) div 60"
      unfolding diff quot using that(4) by (rule wrap64_id)
    then show ?thesis using first [OF that(1,5)] by simp
  qed
  let ?d1 = "store (updateStatus data today now index ''started'')"
  have d1: "dayTasks ?d1 today = ?tasks[nat index := ?t\<lparr>StartedAt := now, Status := ''started''\<rparr>]"
    using updateStatus_in_range [OF assms(1,2)]
    by (simp add: dayTasks_upd updateStatus_switch_def)
  have r1: "index < int (length (dayTasks ?d1 today))"
    using assms(2) d1 by simp
  have t2: "dayTasks (store (updateStatus ?d1 today now index ''done'')) today ! nat index
        = updateStatus_switch now ''done'' (?t\<lparr>StartedAt := now, Status := ''started''\<rparr>)"
    using updateStatus_in_range [OF assms(1) r1] d1 i by (simp add: dayTasks_upd)
  have zero: "wrap64 0 = 0"
    by (simp add: wrap64_def)
  have third: "Actual (dayTasks (store (updateStatus ?d1 today now index ''done'')) today ! nat index)
        = Actual ?t"
    if "inInt64 (Actual ?t)"
    unfolding t2 using wrap64_id [OF that] by (simp add: updateStatus_switch_def zero)
  have fourth: "StartedAt (dayTasks (store (updateStatus ?d1 today now index ''done'')) today ! nat index) = 0"
    unfolding t2 by (simp add: updateStatus_switch_def)
  have fifth: "Status (dayTasks (store (updateStatus ?d1 today now index ''done'')) today ! nat index)
        = ''done''"
    unfolding t2 by (simp add: updateStatus_switch_def)
  show ?thesis using first second third fourth fifth by blast
qed

text \<open>
  The running task, marked done 150 seconds after its start: two minutes are added. A
  pending task with nothing booked, started and marked done at the same second: still
  nothing booked, timer at 0.
\<close>

theorem updateStatus_settles_witness:
  "updateStatus runningDay ''2025-01-01'' 1700000180 0 ''done'' =
     \<lparr>returned = None, printed = [],
      store = runningDay(''2025-01-01'' \<mapsto>
        [\<lparr>Title = ''write report'', Estimated = 60, Actual = 7, Status = ''done'', StartedAt = 0\<rparr>])\<rparr>
   \<and> Actual (dayTasks (store (updateStatus
         (store (updateStatus fullDay ''2025-01-01'' 1700000180 0 ''started''))
         ''2025-01-01'' 1700000180 0 ''done'')) ''2025-01-01'' ! 0) = 0
   \<and> StartedAt (dayTasks (store (updateStatus
         (store (updateStatus fullDay ''2025-01-01'' 1700000180 0 ''started''))
         ''2025-01-01'' 1700000180 0 ''done'')) ''2025-01-01'' ! 0) = 0"
proof -
  have running: "dayTasks runningDay ''2025-01-01'' = [runningTask]"
    by (simp add: runningDay_def dayTasks_def)
  have full: "dayTasks fullDay ''2025-01-01'' ! 0 =
      \<lparr>Title = ''design'', Estimated = 300, Actual = 0, Status = ''pending'', StartedAt = 0\<rparr>"
    "length (dayTasks fullDay ''2025-01-01'') = 2"
    by (simp_all add: fullDay_def dayTasks_def)
  show ?thesis
    using updateStatus_settles [of 0 runningDay "''2025-01-01''" "''done''" 1700000180]
      updateStatus_settles [of 0 fullDay "''2025-01-01''" "''done''" 1700000180]
    by (simp add: running full runningTask_def inInt64_def wrap64_def signed_divide_int_def)
qed

text \<open>
  Claim C7. Marking a task done twice in a row: the first call leaves the timer at 0, so
  the second call changes nothing in the file, and in particular not \<open>Actual\<close>. The two
  calls may happen at different times.
\<close>

theorem updateStatus_done_twice:
  "store (updateStatus (store (updateStatus data today now1 index ''done'')) today now2 index ''done'')
     = store (updateStatus data today now1 index ''done'')
   \<and> (0 \<le> index \<and> index < int (length (dayTasks data today)) \<longrightarrow>
        StartedAt (dayTasks (store (updateStatus data today now1 index ''done'')) today ! nat index) = 0
      \<and> Actual (dayTasks (store (updateStatus
            (store (updateStatus data today now1 index ''done'')) today now2 index ''done'')) today ! nat index)
        = Actual (dayTasks (store (updateStatus data today now1 index ''done'')) today ! nat index))"
proof (cases "0 \<le> index \<and> index < int (length (dayTasks data today))")
  case False
  then have out: "index < 0 \<or> int (length (dayTasks data today)) \<le> index" by auto
  show ?thesis using False by (auto simp add: updateStatus_out_of_range [OF out])
next
  case True
  let ?tasks = "dayTasks data today"
  let ?t1 = "updateStatus_switch now1 ''done'' (?tasks ! nat index)"
  let ?d1 = "store (updateStatus data today now1 index ''done'')"
  from True have lo: "0 \<le> index" and hi: "index < int (length ?tasks)" by auto
  have i: "nat index < length ?tasks" using lo hi by simp
  have d1: "?d1 = data(today \<mapsto> ?tasks[nat index := ?t1])"
    by (simp add: updateStatus_in_range [OF lo hi])
  have tasks1: "dayTasks ?d1 today = ?tasks[nat index := ?t1]"
    by (simp add: d1 dayTasks_upd)
  have t1_timer: "StartedAt ?t1 = 0"
    by (simp add: updateStatus_switch_def)
  have again: "updateStatus_switch now2 ''done'' ?t1 = ?t1"
    by (simp add: updateStatus_switch_def)
  have hi1: "index < int (length (dayTasks ?d1 today))"
    using hi tasks1 by simp
  have d2: "store (updateStatus ?d1 today now2 index ''done'') = ?d1"
    using i by (simp add: updateStatus_in_range [OF lo hi1] tasks1 again) (simp add: d1)
  show ?thesis using d2 tasks1 t1_timer i by simp
qed

text \<open>The running task, done after 150 seconds and done again much later: still 7 minutes.\<close>

theorem updateStatus_done_twice_witness:
  "Actual (dayTasks (store (updateStatus
      (store (updateStatus runningDay ''2025-01-01'' 1700000180 0 ''done''))
        ''2025-01-01'' 1700009999 0 ''done'')) ''2025-01-01'' ! 0) = 7"
  using updateStatus_done_twice [of runningDay "''2025-01-01''" 1700000180 0 1700009999]
  by (simp add: updateStatus_def updateStatus_switch_def runningDay_def runningTask_def
      dayTasks_def signed_divide_int_def wrap64_def)

text \<open>
  Claim C10. Starting a task that is already started only overwrites its timer with the
  current time: \<open>Actual\<close> and every other field stay as they were, so the time that ran
  since the earlier start is booked nowhere.
\<close>

theorem updateStatus_restart:
  assumes "0 \<le> index" and "index < int (length (dayTasks data today))"
    and "Status (dayTasks data today ! nat index) = ''started''"
  shows "updateStatus data today now index ''started'' =
           \<lparr>returned = None, printed = [],
            store = data(today \<mapsto> (dayTasks data today)[nat index :=
              (dayTasks data today ! nat index)\<lparr>StartedAt := now\<rparr>])\<rparr>"
proof -
  have "updateStatus_switch now ''started'' (dayTasks data today ! nat index)
      = (dayTasks data today ! nat index)\<lparr>StartedAt := now\<rparr>"
    using assms(3) by (simp add: updateStatus_switch_def)
  then show ?thesis using updateStatus_in_range [OF assms(1,2)] by simp
qed

text \<open>The running task started again 150 seconds later: only the timer moves.\<close>

theorem updateStatus_restart_witness:
  "updateStatus runningDay ''2025-01-01'' 1700000180 0 ''started'' =
     \<lparr>returned = None, printed = [],
      store = runningDay(''2025-01-01'' \<mapsto>
        [\<lparr>Title = ''write report'', Estimated = 60, Actual = 5, Status = ''started'',
          StartedAt = 1700000180\<rparr>])\<rparr>"
  using updateStatus_restart [of 0 runningDay "''2025-01-01''" 1700000180]
  by (simp add: runningDay_def runningTask_def dayTasks_def)


section \<open>The work calendar\<close>

lemma dateAt_values:
  "dateAt 8 30 = 30600000000000" "dateAt 12 30 = 45000000000000"
  "dateAt 13 30 = 48600000000000" "dateAt 17 30 = 63000000000000"
  by (simp_all add: dateAt_def nsPerMinute_def)

lemma minutesInt_nonneg: "0 \<le> d \<Longrightarrow> minutesInt d = d div nsPerMinute"
  by (simp add: minutesInt_def nsPerMinute_def sdiv_nonneg_eq_div)


text \<open>
  Claim C3. \<^verbatim>\<open>remainingMinutesToday\<close> is 480 before 08:30 and 0 after 17:30; from 08:30
  to just before 12:30 it is the whole minutes until 12:30 plus 240; from 12:30 to just
  before 13:30 it is 240; from 13:30 to 17:30 inclusive it is the whole minutes until
  17:30. At 08:00, 12:00, 13:00, 15:00 and 18:00 it is 480, 270, 240, 150 and 0.
\<close>

theorem remainingMinutesToday_spec:
  "(now < dateAt 8 30 \<longrightarrow> remainingMinutesToday now = 480)
   \<and> (dateAt 17 30 < now \<longrightarrow> remainingMinutesToday now = 0)
   \<and> (dateAt 8 30 \<le> now \<and> now < dateAt 12 30 \<longrightarrow>
        remainingMinutesToday now = (dateAt 12 30 - now) div nsPerMinute + 240)
   \<and> (dateAt 12 30 \<le> now \<and> now < dateAt 13 30 \<longrightarrow> remainingMinutesToday now = 240)
   \<and> (dateAt 13 30 \<le> now \<and> now \<le> dateAt 17 30 \<longrightarrow>
        remainingMinutesToday now = (dateAt 17 30 - now) div nsPerMinute)
   \<and> remainingMinutesToday (dateAt 8 0) = 480
   \<and> remainingMinutesToday (dateAt 12 0) = 270
   \<and> remainingMinutesToday (dateAt 13 0) = 240
   \<and> remainingMinutesToday (dateAt 15 0) = 150
   \<and> remainingMinutesToday (dateAt 18 0) = 0"
proof -
  have before: "now < dateAt 8 30 \<longrightarrow> remainingMinutesToday now = 480"
    by (simp add: remainingMinutesToday_def)
  have after: "dateAt 17 30 < now \<longrightarrow> remainingMinutesToday now = 0"
    by (simp add: remainingMinutesToday_def dateAt_values)
  have morning: "dateAt 8 30 \<le> now \<and> now < dateAt 12 30 \<longrightarrow>
        remainingMinutesToday now = (dateAt 12 30 - now) div nsPerMinute + 240"
    by (simp add: remainingMinutesToday_def dateAt_values minutesInt_nonneg)
  have lunch: "dateAt 12 30 \<le> now \<and> now < dateAt 13 30 \<longrightarrow> remainingMinutesToday now = 240"
    by (simp add: remainingMinutesToday_def dateAt_values)
  have afternoon: "dateAt 13 30 \<le> now \<and> now \<le> dateAt 17 30 \<longrightarrow>
        remainingMinutesToday now = (dateAt 17 30 - now) div nsPerMinute"
    by (auto simp add: remainingMinutesToday_def dateAt_values minutesInt_nonneg)
  have e1: "remainingMinutesToday (dateAt 8 0) = 480"
    by (simp add: remainingMinutesToday_def dateAt_def nsPerMinute_def)
  have e2: "remainingMinutesToday (dateAt 12 0) = 270"
    by (simp add: remainingMinutesToday_def dateAt_def nsPerMinute_def minutesInt_def
        signed_divide_int_def)
  have e3: "remainingMinutesToday (dateAt 13 0) = 240"
    by (simp add: remainingMinutesToday_def dateAt_def nsPerMinute_def)
  have e4: "remainingMinutesToday (dateAt 15 0) = 150"
    by (simp add: remainingMinutesToday_def dateAt_def nsPerMinute_def minutesInt_def
        signed_divide_int_def)
  have e5: "remainingMinutesToday (dateAt 18 0) = 0"
    by (simp add: remainingMinutesToday_def dateAt_def nsPerMinute_def)
  show ?thesis using before after morning lunch afternoon e1 e2 e3 e4 e5 by blast
qed

text \<open>
  One clock reading in each of the five ranges: 07:59, 17:31, a nanosecond past 09:15,
  12:45, 17:30 sharp, and 16:00:59.
\<close>

theorem remainingMinutesToday_spec_witness:
  "remainingMinutesToday (dateAt 7 59) = 480
   \<and> remainingMinutesToday (dateAt 17 31) = 0
   \<and> remainingMinutesToday (dateAt 9 15 + 1) = 434
   \<and> remainingMinutesToday (dateAt 12 45) = 240
   \<and> remainingMinutesToday (dateAt 17 30) = 0
   \<and> remainingMinutesToday (dateAt 16 0 + 59000000000) = 89"
  using remainingMinutesToday_spec [of "dateAt 7 59"]
    remainingMinutesToday_spec [of "dateAt 17 31"]
    remainingMinutesToday_spec [of "dateAt 9 15 + 1"]
    remainingMinutesToday_spec [of "dateAt 12 45"]
    remainingMinutesToday_spec [of "dateAt 17 30"]
    remainingMinutesToday_spec [of "dateAt 16 0 + 59000000000"]
  by (simp add: dateAt_def nsPerMinute_def)

section \<open>Remaining work and the workload ratio\<close>





section \<open>Creating a task\<close>

lemma sumEstimated_sum: "sumEstimated tasks tot = tot + sum_list (map Estimated tasks)"
  by (induction tasks arbitrary: tot) auto

lemma addTaskInteractive_accepted:
  assumes "title \<noteq> ''q''" and "0 < est"
  shows "addTaskInteractive data today (Inr title) (Inr (Some est)) =
     Some \<lparr>returned = None,
           printed = (if sum_list (map Estimated (dayTasks data today)) + est > maxDailyMinutes
                      then [''total estimated time exceeds 8 hours''] else []),
           store = data(today \<mapsto> dayTasks data today @
             [\<lparr>Title = title, Estimated = est, Actual = 0, Status = ''pending'', StartedAt = 0\<rparr>])\<rparr>"
  using assms
  by (simp add: addTaskInteractive_def promptWithCursor_def estValidate_def sumEstimated_sum Let_def)

lemma addTaskInteractive_rejected:
  assumes "estValidate parsed \<noteq> None"
  shows "addTaskInteractive data today (Inr title) (Inr parsed) =
     (if title = ''q'' then Some \<lparr>returned = None, printed = [], store = data\<rparr> else None)"
  using assms
  by (auto simp add: addTaskInteractive_def promptWithCursor_def leavePrompt_def)

text \<open>
  Claim C5, as the code has it. Only the estimate is validated: an entry that is not a
  number, or is 0 or less, is answered with the validation error and no task is written.
  The title is not validated; the one title with a meaning of its own is \<open>q\<close>, which
  leaves the command with nothing written. Every other title, the empty one included,
  with an estimate above 0 yields a pending task with \<open>Actual = 0\<close> and
  \<open>StartedAt = 0\<close>, appended to the day.
\<close>

theorem addTaskInteractive_validation:
  "estValidate None = Some (Error ''please enter a valid number of minutes'')
   \<and> addTaskInteractive data today (Inr title) (Inr None)
        = (if title = ''q'' then Some \<lparr>returned = None, printed = [], store = data\<rparr> else None)
   \<and> (est \<le> 0 \<longrightarrow>
        estValidate (Some est) = Some (Error ''please enter a valid number of minutes'')
        \<and> addTaskInteractive data today (Inr title) (Inr (Some est))
            = (if title = ''q'' then Some \<lparr>returned = None, printed = [], store = data\<rparr> else None))
   \<and> (0 < est \<longrightarrow> estValidate (Some est) = None)
   \<and> (0 < est \<and> title \<noteq> ''q'' \<longrightarrow>
        addTaskInteractive data today (Inr title) (Inr (Some est)) =
          Some \<lparr>returned = None,
                printed = (if sum_list (map Estimated (dayTasks data today)) + est > maxDailyMinutes
                           then [''total estimated time exceeds 8 hours''] else []),
                store = data(today \<mapsto> dayTasks data today @
                  [\<lparr>Title = title, Estimated = est, Actual = 0,
                    Status = ''pending'', StartedAt = 0\<rparr>])\<rparr>)
   \<and> (0 < est \<longrightarrow>
        addTaskInteractive data today (Inr ''q'') (Inr (Some est))
          = Some \<lparr>returned = None, printed = [], store = data\<rparr>)"
proof -
  have none: "addTaskInteractive data today (Inr title) (Inr None)
        = (if title = ''q'' then Some \<lparr>returned = None, printed = [], store = data\<rparr> else None)"
    by (rule addTaskInteractive_rejected) (simp add: estValidate_def)
  have bad: "est \<le> 0 \<longrightarrow>
        estValidate (Some est) = Some (Error ''please enter a valid number of minutes'')
        \<and> addTaskInteractive data today (Inr title) (Inr (Some est))
            = (if title = ''q'' then Some \<lparr>returned = None, printed = [], store = data\<rparr> else None)"
    using addTaskInteractive_rejected [of "Some est" data today title]
    by (simp add: estValidate_def)
  have good: "0 < est \<and> title \<noteq> ''q'' \<longrightarrow>
        addTaskInteractive data today (Inr title) (Inr (Some est)) =
          Some \<lparr>returned = None,
                printed = (if sum_list (map Estimated (dayTasks data today)) + est > maxDailyMinutes
                           then [''total estimated time exceeds 8 hours''] else []),
                store = data(today \<mapsto> dayTasks data today @
                  [\<lparr>Title = title, Estimated = est, Actual = 0,
                    Status = ''pending'', StartedAt = 0\<rparr>])\<rparr>"
    using addTaskInteractive_accepted [of title est data today] by blast
  have quit: "addTaskInteractive data today (Inr ''q'') (Inr (Some est))
        = Some \<lparr>returned = None, printed = [], store = data\<rparr>"
    by (simp add: addTaskInteractive_def promptWithCursor_def leavePrompt_def)
  have val: "estValidate None = Some (Error ''please enter a valid number of minutes'')"
    "0 < est \<longrightarrow> estValidate (Some est) = None"
    by (simp_all add: estValidate_def)
  show ?thesis using none bad good quit val by blast
qed

text \<open>An estimate of 0 is turned down; 45 minutes for the task \<open>plan\<close> are accepted.\<close>

theorem addTaskInteractive_validation_witness:
  "addTaskInteractive noTasks ''2025-01-01'' (Inr ''plan'') (Inr (Some 0)) = None
   \<and> addTaskInteractive noTasks ''2025-01-01'' (Inr ''plan'') (Inr (Some 45)) =
       Some \<lparr>returned = None, printed = [],
             store = noTasks(''2025-01-01'' \<mapsto>
               [\<lparr>Title = ''plan'', Estimated = 45, Actual = 0, Status = ''pending'', StartedAt = 0\<rparr>])\<rparr>"
  using addTaskInteractive_validation [of noTasks "''2025-01-01''" "''plan''" 0]
    addTaskInteractive_validation [of noTasks "''2025-01-01''" "''plan''" 45]
  by (simp add: noTasks_def dayTasks_def maxDailyMinutes_def)

text \<open>
  Claim C5 as the specification words it fails for the empty title: with a valid estimate
  the command returns no error and writes a task whose title is empty.
\<close>

theorem addTaskInteractive_empty_title_counterexample:
  "addTaskInteractive noTasks ''2025-01-01'' (Inr []) (Inr (Some 45)) =
     Some \<lparr>returned = None, printed = [],
           store = noTasks(''2025-01-01'' \<mapsto>
             [\<lparr>Title = [], Estimated = 45, Actual = 0, Status = ''pending'', StartedAt = 0\<rparr>])\<rparr>"
  by (simp add: noTasks_def dayTasks_def addTaskInteractive_def promptWithCursor_def
      estValidate_def maxDailyMinutes_def)



section \<open>Starting the next task\<close>

lemma alreadyStarted_iff: "alreadyStarted tasks = (\<exists>t \<in> set tasks. Status t = ''started'')"
  by (induction tasks) auto

text \<open>
  Claim C6. When some task of the day is already started, \<^verbatim>\<open>startNextPendingTask\<close>
  prints the already-started notice, returns no error and leaves the file as it was,
  whatever pending tasks the day holds and whatever the user would answer.
\<close>

theorem startNextPendingTask_refuses:
  assumes "\<exists>t \<in> set (dayTasks data today). Status t = ''started''"
  shows "startNextPendingTask data today now run =
     \<lparr>returned = None,
      printed = [''A task is already started. Please finish it before starting another one.''],
      store = data\<rparr>"
  using assms by (simp add: startNextPendingTask_def alreadyStarted_iff)

text \<open>The day with a running task between two pending ones, and a user ready to start.\<close>

theorem startNextPendingTask_refuses_witness:
  "startNextPendingTask busyDay ''2025-01-01'' 1700000180 alwaysStart =
     \<lparr>returned = None,
      printed = [''A task is already started. Please finish it before starting another one.''],
      store = busyDay\<rparr>"
  using startNextPendingTask_refuses [of busyDay "''2025-01-01''" 1700000180 alwaysStart]
  by (simp add: busyDay_def dayTasks_def)

section \<open>Deleting a task\<close>

text \<open>
  Claim C9. Deleting at an index in range removes that task alone: the list is one
  shorter, the tasks before the index keep their places, the tasks after it move down by
  one, and each remaining task is the record it was. Of three tasks, deleting index 1
  leaves the first and the third. The deleted task is not settled: the command reads no
  clock, and a running task goes with its timer.
\<close>

theorem deleteTaskInteractive_removes:
  assumes "0 \<le> index" and "index < int (length (dayTasks data today))"
  shows "deleteTaskInteractive data today (Inr index) =
           \<lparr>returned = None, printed = [],
            store = data(today \<mapsto> take (nat index) (dayTasks data today)
                                    @ drop (nat index + 1) (dayTasks data today))\<rparr>
     \<and> length (dayTasks (store (deleteTaskInteractive data today (Inr index))) today)
         = length (dayTasks data today) - 1
     \<and> (\<forall>j. j < nat index \<longrightarrow>
           dayTasks (store (deleteTaskInteractive data today (Inr index))) today ! j
           = dayTasks data today ! j)
     \<and> (\<forall>j. nat index \<le> j \<and> j < length (dayTasks data today) - 1 \<longrightarrow>
           dayTasks (store (deleteTaskInteractive data today (Inr index))) today ! j
           = dayTasks data today ! Suc j)
     \<and> (dayTasks data today = [a, b, c] \<and> index = 1 \<longrightarrow>
           dayTasks (store (deleteTaskInteractive data today (Inr index))) today = [a, c])"
proof -
  let ?tasks = "dayTasks data today"
  let ?i = "nat index"
  have i: "?i < length ?tasks" using assms by simp
  have ne: "length ?tasks \<noteq> 0" using i by auto
  have whole: "deleteTaskInteractive data today (Inr index) =
           \<lparr>returned = None, printed = [],
            store = data(today \<mapsto> take ?i ?tasks @ drop (?i + 1) ?tasks)\<rparr>"
    using assms ne by (simp add: deleteTaskInteractive_def Let_def)
  have res: "dayTasks (store (deleteTaskInteractive data today (Inr index))) today
      = take ?i ?tasks @ drop (?i + 1) ?tasks"
    by (simp add: whole dayTasks_upd)
  have len: "length (take ?i ?tasks @ drop (?i + 1) ?tasks) = length ?tasks - 1"
    using i by simp
  have low: "\<forall>j. j < ?i \<longrightarrow> (take ?i ?tasks @ drop (?i + 1) ?tasks) ! j = ?tasks ! j"
    using i by (simp add: nth_append)
  have high: "\<forall>j. ?i \<le> j \<and> j < length ?tasks - 1 \<longrightarrow>
      (take ?i ?tasks @ drop (?i + 1) ?tasks) ! j = ?tasks ! Suc j"
    using i by (auto simp add: nth_append min_def)
  have three: "?tasks = [a, b, c] \<and> index = 1 \<longrightarrow> take ?i ?tasks @ drop (?i + 1) ?tasks = [a, c]"
    by auto
  show ?thesis unfolding res using whole len low high three by blast
qed

text \<open>Deleting the running task in the middle of the three-task day.\<close>

theorem deleteTaskInteractive_removes_witness:
  "deleteTaskInteractive busyDay ''2025-01-01'' (Inr 1) =
     \<lparr>returned = None, printed = [],
      store = busyDay(''2025-01-01'' \<mapsto>
        [\<lparr>Title = ''design'', Estimated = 120, Actual = 0, Status = ''pending'', StartedAt = 0\<rparr>,
         \<lparr>Title = ''test'', Estimated = 45, Actual = 0, Status = ''pending'', StartedAt = 0\<rparr>])\<rparr>"
  using deleteTaskInteractive_removes [of 1 busyDay "''2025-01-01''"]
  by (simp add: busyDay_def dayTasks_def)


section \<open>Which commands keep the timer invariant\<close>

lemma taskInv_switch_canonical:
  assumes "status = ''done'' \<or> status = ''cancelled'' \<or> status = ''pending''"
  shows "taskInv (updateStatus_switch now status t)"
  using assms by (auto simp add: taskInv_def updateStatus_switch_def)

lemma taskInv_switch_started:
  assumes "now \<noteq> 0"
  shows "taskInv (updateStatus_switch now ''started'' t)"
  using assms by (simp add: taskInv_def updateStatus_switch_def)

lemma taskInv_switch_other:
  assumes "status \<noteq> ''started''" "status \<noteq> ''done''" "status \<noteq> ''cancelled''"
    "status \<noteq> ''pending''"
  shows "taskInv (updateStatus_switch now status t) = (StartedAt t = 0)"
  using assms by (simp add: taskInv_def updateStatus_switch_def)

lemma list_all_update:
  "list_all P xs \<Longrightarrow> P x \<Longrightarrow> list_all P (xs[i := x])"
  by (induction xs arbitrary: i) (auto split: nat.splits)

lemma dayInv_upd:
  "dayInv (data(today \<mapsto> ts)) day = (if day = today then list_all taskInv ts else dayInv data day)"
  by (simp add: dayInv_def dayTasks_upd)

lemma dayInv_updateStatus:
  assumes "dayInv data day" and "\<And>t. taskInv (updateStatus_switch now status t)"
  shows "dayInv (store (updateStatus data today now index status)) day"
proof (cases "0 \<le> index \<and> index < int (length (dayTasks data today))")
  case True
  then have lo: "0 \<le> index" and hi: "index < int (length (dayTasks data today))" by auto
  show ?thesis
    using assms
    by (auto simp add: updateStatus_in_range [OF lo hi] dayInv_def dayTasks_upd
        intro: list_all_update)
next
  case False
  then have "index < 0 \<or> int (length (dayTasks data today)) \<le> index" by auto
  then show ?thesis using assms(1) by (simp add: updateStatus_out_of_range)
qed

lemma dayInv_addTask:
  assumes "dayInv data day" and "addTaskInteractive data today titleRun estRun = Some r"
  shows "dayInv (store r) day"
  using assms
  by (auto simp add: addTaskInteractive_def leavePrompt_def dayInv_def dayTasks_upd taskInv_def
      Let_def split: sum.splits option.splits if_splits)

lemma dayInv_delete:
  assumes "dayInv data day"
  shows "dayInv (store (deleteTaskInteractive data today run)) day"
proof -
  have "list_all taskInv ts \<Longrightarrow> list_all taskInv (take n ts @ drop m ts)" for ts n m
    by (auto simp add: list_all_iff dest: in_set_takeD in_set_dropD)
  then show ?thesis
    using assms
    by (auto simp add: deleteTaskInteractive_def leavePrompt_def dayTasks_upd Let_def dayInv_def
        split: sum.splits if_splits)
qed

lemma dayInv_leavePrompt: "dayInv (store (leavePrompt data e)) day = dayInv data day"
  by (simp add: leavePrompt_def)

lemma dayInv_startLoop:
  assumes "dayInv data day" and "now \<noteq> 0"
  shows "dayInv (store (startLoop data today now run i ts)) day"
  using assms
  by (induction ts arbitrary: i)
     (auto simp add: dayInv_leavePrompt Let_def taskInv_switch_started
       intro: dayInv_updateStatus split: sum.splits)

lemma dayInv_startNext:
  assumes "dayInv data day" and "now \<noteq> 0"
  shows "dayInv (store (startNextPendingTask data today now run)) day"
  using assms by (simp add: startNextPendingTask_def Let_def dayInv_startLoop)

lemma dayInv_finishLoop:
  assumes "dayInv data day"
  shows "dayInv (store (finishLoop data today now i ts)) day"
  using assms
  by (induction ts arbitrary: i) (auto intro: dayInv_updateStatus taskInv_switch_canonical)

lemma dayInv_stopLoop:
  assumes "dayInv data day"
  shows "dayInv (store (stopLoop data today now i ts)) day"
  using assms
  by (induction ts arbitrary: i)
     (auto simp add: Let_def intro: dayInv_updateStatus taskInv_switch_canonical)

lemma dayInv_updateStatus_other:
  assumes "dayInv data today" and "0 \<le> index" and "index < int (length (dayTasks data today))"
    and "status \<noteq> ''started''" "status \<noteq> ''done''" "status \<noteq> ''cancelled''"
      "status \<noteq> ''pending''"
  shows "dayInv (store (updateStatus data today now index status)) today
         = (StartedAt (dayTasks data today ! nat index) = 0)"
proof -
  let ?tasks = "dayTasks data today"
  let ?t' = "updateStatus_switch now status (?tasks ! nat index)"
  have i: "nat index < length ?tasks" using assms(2,3) by simp
  have all: "list_all taskInv ?tasks" using assms(1) by (simp add: dayInv_def)
  have "list_all taskInv (?tasks[nat index := ?t']) = taskInv ?t'"
  proof
    assume "list_all taskInv (?tasks[nat index := ?t'])"
    then show "taskInv ?t'"
      using i by (metis list_all_length length_list_update nth_list_update_eq)
  next
    assume "taskInv ?t'"
    then show "list_all taskInv (?tasks[nat index := ?t'])"
      using all by (rule list_all_update [rotated])
  qed
  then show ?thesis
    using taskInv_switch_other [OF assms(4-7), of now "?tasks ! nat index"]
    by (simp add: updateStatus_in_range [OF assms(2,3)] dayInv_upd)
qed

text \<open>
  Claim C2, as the code has it. On a day where every task has its timer set exactly when
  it is started, this stays so after \<^verbatim>\<open>updateStatus\<close> with done, cancelled or pending;
  after \<^verbatim>\<open>updateStatus\<close> with started and after \<^verbatim>\<open>startNextPendingTask\<close>, when the
  Unix time is not 0; after adding and deleting a task; after \<^verbatim>\<open>finishCurrentTask\<close> and
  \<^verbatim>\<open>stopCurrentTask\<close>. A status string outside the four known ones, at an index in
  range, is written as it is and every other field, the timer included, is left alone:
  the invariant survives exactly when the task addressed was not running.
\<close>

theorem timer_invariant_kept:
  assumes "dayInv data day"
  shows "(status = ''done'' \<or> status = ''cancelled'' \<or> status = ''pending'' \<longrightarrow>
            dayInv (store (updateStatus data today now index status)) day)
     \<and> (now \<noteq> 0 \<longrightarrow> dayInv (store (updateStatus data today now index ''started'')) day)
     \<and> (status \<noteq> ''started'' \<and> status \<noteq> ''done'' \<and> status \<noteq> ''cancelled''
          \<and> status \<noteq> ''pending''
          \<and> day = today \<and> 0 \<le> index \<and> index < int (length (dayTasks data today)) \<longrightarrow>
            dayInv (store (updateStatus data today now index status)) day
            = (StartedAt (dayTasks data today ! nat index) = 0))
     \<and> (status \<noteq> ''started'' \<and> status \<noteq> ''done'' \<and> status \<noteq> ''cancelled''
          \<and> status \<noteq> ''pending''
          \<and> 0 \<le> index \<and> index < int (length (dayTasks data today)) \<longrightarrow>
            updateStatus data today now index status =
              \<lparr>returned = None, printed = [],
               store = data(today \<mapsto> (dayTasks data today)[nat index :=
                 (dayTasks data today ! nat index)\<lparr>Status := status\<rparr>])\<rparr>)
     \<and> (\<forall>r. addTaskInteractive data today titleRun estRun = Some r \<longrightarrow> dayInv (store r) day)
     \<and> dayInv (store (deleteTaskInteractive data today delRun)) day
     \<and> (now \<noteq> 0 \<longrightarrow> dayInv (store (startNextPendingTask data today now run)) day)
     \<and> dayInv (store (finishCurrentTask data today now)) day
     \<and> dayInv (store (stopCurrentTask data today now)) day"
proof -
  have canonical: "status = ''done'' \<or> status = ''cancelled'' \<or> status = ''pending'' \<longrightarrow>
            dayInv (store (updateStatus data today now index status)) day"
    using assms by (auto intro: dayInv_updateStatus taskInv_switch_canonical)
  have started: "now \<noteq> 0 \<longrightarrow> dayInv (store (updateStatus data today now index ''started'')) day"
    using assms by (auto intro: dayInv_updateStatus taskInv_switch_started)
  have other: "status \<noteq> ''started'' \<and> status \<noteq> ''done'' \<and> status \<noteq> ''cancelled''
          \<and> status \<noteq> ''pending''
          \<and> day = today \<and> 0 \<le> index \<and> index < int (length (dayTasks data today)) \<longrightarrow>
            dayInv (store (updateStatus data today now index status)) day
            = (StartedAt (dayTasks data today ! nat index) = 0)"
    using assms dayInv_updateStatus_other [of data today index status now] by blast
  have verbatim: "status \<noteq> ''started'' \<and> status \<noteq> ''done'' \<and> status \<noteq> ''cancelled''
          \<and> status \<noteq> ''pending''
          \<and> 0 \<le> index \<and> index < int (length (dayTasks data today)) \<longrightarrow>
            updateStatus data today now index status =
              \<lparr>returned = None, printed = [],
               store = data(today \<mapsto> (dayTasks data today)[nat index :=
                 (dayTasks data today ! nat index)\<lparr>Status := status\<rparr>])\<rparr>"
    by (simp add: updateStatus_in_range updateStatus_switch_def)
  have add: "\<forall>r. addTaskInteractive data today titleRun estRun = Some r \<longrightarrow> dayInv (store r) day"
    using assms dayInv_addTask by blast
  have del: "dayInv (store (deleteTaskInteractive data today delRun)) day"
    using assms by (rule dayInv_delete)
  have nxt: "now \<noteq> 0 \<longrightarrow> dayInv (store (startNextPendingTask data today now run)) day"
    using assms dayInv_startNext by blast
  have fin: "dayInv (store (finishCurrentTask data today now)) day"
    using assms by (simp add: finishCurrentTask_def dayInv_finishLoop)
  have stp: "dayInv (store (stopCurrentTask data today now)) day"
    using assms by (simp add: stopCurrentTask_def dayInv_stopLoop)
  show ?thesis using canonical started other verbatim add del nxt fin stp by blast
qed

text \<open>
  On the sample days: the running task done; a pending task started; the status
  \<open>paused\<close> written on a pending task, which keeps the invariant, and on the running
  task, which breaks it and changes the status alone; a task added; the running task
  deleted; the next task started; the running task finished and stopped.
\<close>

theorem timer_invariant_kept_witness:
  "dayInv (store (updateStatus busyDay ''2025-01-01'' 1700000180 1 ''done'')) ''2025-01-01''
   \<and> dayInv (store (updateStatus fullDay ''2025-01-01'' 1700000180 0 ''started'')) ''2025-01-01''
   \<and> dayInv (store (updateStatus busyDay ''2025-01-01'' 1700000180 0 ''paused'')) ''2025-01-01''
   \<and> \<not> dayInv (store (updateStatus busyDay ''2025-01-01'' 1700000180 1 ''paused'')) ''2025-01-01''
   \<and> updateStatus busyDay ''2025-01-01'' 1700000180 1 ''paused'' =
        \<lparr>returned = None, printed = [],
         store = busyDay(''2025-01-01'' \<mapsto> (dayTasks busyDay ''2025-01-01'')[nat 1 :=
           (dayTasks busyDay ''2025-01-01'' ! nat 1)\<lparr>Status := ''paused''\<rparr>])\<rparr>
   \<and> dayInv (store (the (addTaskInteractive busyDay ''2025-01-01'' (Inr ''plan'') (Inr (Some 45)))))
        ''2025-01-01''
   \<and> dayInv (store (deleteTaskInteractive busyDay ''2025-01-01'' (Inr 1))) ''2025-01-01''
   \<and> dayInv (store (startNextPendingTask fullDay ''2025-01-01'' 1700000180 alwaysStart)) ''2025-01-01''
   \<and> dayInv (store (finishCurrentTask busyDay ''2025-01-01'' 1700000180)) ''2025-01-01''
   \<and> dayInv (store (stopCurrentTask busyDay ''2025-01-01'' 1700000180)) ''2025-01-01''"
proof -
  have busy: "dayInv busyDay ''2025-01-01''"
    by (simp add: dayInv_def taskInv_def busyDay_def dayTasks_def)
  have full: "dayInv fullDay ''2025-01-01''"
    by (simp add: dayInv_def taskInv_def fullDay_def dayTasks_def)
  have first: "(0::int) \<le> 0 \<and> 0 < int (length (dayTasks busyDay ''2025-01-01''))"
    "StartedAt (dayTasks busyDay ''2025-01-01'' ! nat 0) = 0"
    by (simp_all add: busyDay_def dayTasks_def)
  have second: "(0::int) \<le> 1 \<and> 1 < int (length (dayTasks busyDay ''2025-01-01''))"
    "StartedAt (dayTasks busyDay ''2025-01-01'' ! nat 1) \<noteq> 0"
    by (simp_all add: busyDay_def dayTasks_def)
  have add: "addTaskInteractive busyDay ''2025-01-01'' (Inr ''plan'') (Inr (Some 45)) =
      Some (the (addTaskInteractive busyDay ''2025-01-01'' (Inr ''plan'') (Inr (Some 45))))"
    by (simp add: addTaskInteractive_def promptWithCursor_def estValidate_def Let_def)
  note done1 = timer_invariant_kept [OF busy, of "''done''" "''2025-01-01''" 1700000180 1
        "Inr ''plan''" "Inr (Some 45)" "Inr 1" alwaysStart]
  note paused0 = timer_invariant_kept [OF busy, of "''paused''" "''2025-01-01''" 1700000180 0
        "Inr ''plan''" "Inr (Some 45)" "Inr 1" alwaysStart]
  note paused1 = timer_invariant_kept [OF busy, of "''paused''" "''2025-01-01''" 1700000180 1
        "Inr ''plan''" "Inr (Some 45)" "Inr 1" alwaysStart]
  note fulld = timer_invariant_kept [OF full, of "''done''" "''2025-01-01''" 1700000180 0
        "Inr ''plan''" "Inr (Some 45)" "Inr 1" alwaysStart]
  have c1: "dayInv (store (updateStatus busyDay ''2025-01-01'' 1700000180 1 ''done'')) ''2025-01-01''"
    using done1 [THEN conjunct1] by simp
  have c2: "dayInv (store (updateStatus fullDay ''2025-01-01'' 1700000180 0 ''started'')) ''2025-01-01''"
    using fulld [THEN conjunct2, THEN conjunct1] by simp
  have c3: "dayInv (store (updateStatus busyDay ''2025-01-01'' 1700000180 0 ''paused'')) ''2025-01-01''"
    using paused0 [THEN conjunct2, THEN conjunct2, THEN conjunct1] first by simp
  have c4: "\<not> dayInv (store (updateStatus busyDay ''2025-01-01'' 1700000180 1 ''paused'')) ''2025-01-01''"
    using paused1 [THEN conjunct2, THEN conjunct2, THEN conjunct1] second by simp
  have c5: "updateStatus busyDay ''2025-01-01'' 1700000180 1 ''paused'' =
        \<lparr>returned = None, printed = [],
         store = busyDay(''2025-01-01'' \<mapsto> (dayTasks busyDay ''2025-01-01'')[nat 1 :=
           (dayTasks busyDay ''2025-01-01'' ! nat 1)\<lparr>Status := ''paused''\<rparr>])\<rparr>"
    using paused1 [THEN conjunct2, THEN conjunct2, THEN conjunct2, THEN conjunct1] second(1) by simp
  have c6: "dayInv (store (the (addTaskInteractive busyDay ''2025-01-01'' (Inr ''plan'') (Inr (Some 45)))))
        ''2025-01-01''"
    using done1 [THEN conjunct2, THEN conjunct2, THEN conjunct2, THEN conjunct2, THEN conjunct1] add by blast
  have c7: "dayInv (store (deleteTaskInteractive busyDay ''2025-01-01'' (Inr 1))) ''2025-01-01''"
    by (rule done1 [THEN conjunct2, THEN conjunct2, THEN conjunct2, THEN conjunct2, THEN conjunct2, THEN conjunct1])
  have c8: "dayInv (store (startNextPendingTask fullDay ''2025-01-01'' 1700000180 alwaysStart)) ''2025-01-01''"
    using fulld [THEN conjunct2, THEN conjunct2, THEN conjunct2, THEN conjunct2, THEN conjunct2, THEN conjunct2, THEN conjunct1] by simp
  have c9: "dayInv (store (finishCurrentTask busyDay ''2025-01-01'' 1700000180)) ''2025-01-01''"
    by (rule done1 [THEN conjunct2, THEN conjunct2, THEN conjunct2, THEN conjunct2, THEN conjunct2, THEN conjunct2, THEN conjunct2, THEN conjunct1])
  have c10: "dayInv (store (stopCurrentTask busyDay ''2025-01-01'' 1700000180)) ''2025-01-01''"
    by (rule done1 [THEN conjunct2, THEN conjunct2, THEN conjunct2, THEN conjunct2, THEN conjunct2, THEN conjunct2, THEN conjunct2, THEN conjunct2])
  show ?thesis
    using c1 c2 c3 c4 c5 c6 c7 c8 c9 c10 by (intro conjI)
qed

text \<open>
  Claim C2 as the specification words it fails for an unrecognized status: written on the
  running task, \<open>paused\<close> replaces the status while the timer stays set.
\<close>

theorem timer_invariant_unrecognized_counterexample:
  "dayInv runningDay ''2025-01-01''
   \<and> \<not> dayInv (store (updateStatus runningDay ''2025-01-01'' 1700000180 0 ''paused''))
        ''2025-01-01''"
  by (simp add: dayInv_def taskInv_def updateStatus_def updateStatus_switch_def runningDay_def
      runningTask_def dayTasks_def)

text \<open>
  The edit loop of \<^verbatim>\<open>listTasksInteractive\<close> writes the chosen status and never touches
  the timer, where \<^verbatim>\<open>updateStatus\<close> settles and clears it: the running task edited to
  done keeps its timer.
\<close>

lemma listTasksEdit_keeps_timer:
  "listTasksEdit runningDay ''2025-01-01'' 0 ''write report'' 60 5 ''done'' =
       Inr (runningDay(''2025-01-01'' \<mapsto>
         [\<lparr>Title = ''write report'', Estimated = 60, Actual = 5, Status = ''done'',
           StartedAt = 1700000030\<rparr>]))
   \<and> \<not> dayInv (runningDay(''2025-01-01'' \<mapsto>
         [\<lparr>Title = ''write report'', Estimated = 60, Actual = 5, Status = ''done'',
           StartedAt = 1700000030\<rparr>])) ''2025-01-01''"
  by (simp add: dayInv_def taskInv_def listTasksEdit_def runningDay_def runningTask_def
      dayTasks_def)

end
